theory Spec2Isabelle
  imports Complex_Main "HOL-Library.Sublist"
begin

section \<open>Text helpers of the Python standard library\<close>

text \<open>
  A Python string is modelled as a \<^typ>\<open>string\<close>, each character standing for the code
  point of its number: the strings of this development are those over the code points
  below 256. The character classes below are those of Python 3 on that range.
\<close>

definition is_space :: "char \<Rightarrow> bool" where
  \<comment> \<open>\<^verbatim>\<open>\s\<close> and \<^verbatim>\<open>str.isspace\<close>: TAB, LF, VT, FF, CR, FS, GS, RS, US, space,
      NEL (133) and the no-break space (160)\<close>
  "is_space c \<longleftrightarrow>
     (let n = (of_char c :: nat) in
        (9 \<le> n \<and> n \<le> 13) \<or> (28 \<le> n \<and> n \<le> 32) \<or> n = 133 \<or> n = 160)"

definition is_word :: "char \<Rightarrow> bool" where
  \<comment> \<open>\<^verbatim>\<open>\w\<close>: the underscore and what \<^verbatim>\<open>str.isalnum\<close> accepts: the ASCII digits and
      letters, the ordinal indicators (170, 186), the superscript digits (178, 179, 185),
      the micro sign (181), the fractions (188 to 190) and the accented letters
      (192 to 255 without the multiplication and division signs 215 and 247)\<close>
  "is_word c \<longleftrightarrow>
     (let n = (of_char c :: nat) in
        (48 \<le> n \<and> n \<le> 57) \<or> (65 \<le> n \<and> n \<le> 90) \<or> n = 95 \<or> (97 \<le> n \<and> n \<le> 122)
        \<or> n = 170 \<or> n = 178 \<or> n = 179 \<or> n = 181 \<or> n = 185 \<or> n = 186
        \<or> (188 \<le> n \<and> n \<le> 190) \<or> (192 \<le> n \<and> n \<le> 214) \<or> (216 \<le> n \<and> n \<le> 246)
        \<or> (248 \<le> n \<and> n \<le> 255))"

definition lower_char :: "char \<Rightarrow> char" where
  \<comment> \<open>the capital letters are 65 to 90, 192 to 214 and 216 to 222; each has its small
      letter 32 places further\<close>
  "lower_char c =
     (let n = (of_char c :: nat) in
        if (65 \<le> n \<and> n \<le> 90) \<or> (192 \<le> n \<and> n \<le> 214) \<or> (216 \<le> n \<and> n \<le> 222)
        then char_of (n + 32) else c)"

definition lower :: "string \<Rightarrow> string" where
  \<comment> \<open>\<^verbatim>\<open>str.lower\<close>\<close>
  "lower s = map lower_char s"

definition strip :: "string \<Rightarrow> string" where
  \<comment> \<open>\<^verbatim>\<open>str.strip()\<close>: white space removed at both ends.\<close>
  "strip s = rev (dropWhile is_space (rev (dropWhile is_space s)))"

text \<open>
  The exceptions that leave the modelled functions, and how a call ends. A library
  function that may raise returns a sum, the exception on the left.
\<close>

datatype py_exception = ValueError | KeyError | OverflowError | SelectorError

datatype completion = Returned | Raised

section \<open>Log records\<close>

text \<open>
  One constructor per \<^verbatim>\<open>logging\<close> call of the modelled functions, carrying the
  values the message interpolates.
\<close>

datatype log_msg =
    New_listing_added string int string
  | Failed_to_insert string
  | Notification_throttled
  | No_new_listings
  | Notification_sent
  | Failed_to_send_notification
  | Could_not_convert_price string
  | Starting_request string
  | Parsing_response string nat
  | Number_of_listings nat
  | No_listings_found string
  | Found_title_price string string
  | Skipping string "int option"
  | Total_processed nat

datatype level = INFO | WARNING | ERROR

fun level_of :: "log_msg \<Rightarrow> level" where
  "level_of (New_listing_added _ _ _) = INFO"
| "level_of (Failed_to_insert _) = ERROR"
| "level_of Notification_throttled = WARNING"
| "level_of No_new_listings = WARNING"
| "level_of Notification_sent = INFO"
| "level_of Failed_to_send_notification = ERROR"
| "level_of (Could_not_convert_price _) = ERROR"
| "level_of (Starting_request _) = INFO"
| "level_of (Parsing_response _ _) = INFO"
| "level_of (Number_of_listings _) = INFO"
| "level_of (No_listings_found _) = WARNING"
| "level_of (Found_title_price _ _) = INFO"
| "level_of (Skipping _ _) = INFO"
| "level_of (Total_processed _) = INFO"

section \<open>DatabaseManager\<close>

type_synonym listing = "string \<times> string \<times> int"

text \<open>
  The \<^verbatim>\<open>listings\<close> table is the list of its rows (title, link, price) in insertion
  order; the \<^verbatim>\<open>UNIQUE(title, link)\<close> constraint is what \<^verbatim>\<open>INSERT OR IGNORE\<close>
  tests. \<open>new_listings\<close> is the session list of the object.
\<close>

record db_manager =
  rows :: "listing list"
  new_listings :: "listing list"
  db_log :: "log_msg list"

definition sanitize_input :: "string \<Rightarrow> string" where
  \<comment> \<open>\<^verbatim>\<open>re.sub(r'[^\w\s-]', '', data).strip().lower()\<close>\<close>
  "sanitize_input data =
     lower (strip (filter (\<lambda>c. is_word c \<or> is_space c \<or> c = CHR ''-'') data))"

definition has_key :: "listing list \<Rightarrow> string \<Rightarrow> string \<Rightarrow> bool" where
  \<comment> \<open>a row with this (title, link) exists: the insert would violate the constraint\<close>
  "has_key rs t l \<longleftrightarrow> list_ex (\<lambda>(t', l', p'). t' = t \<and> l' = l) rs"

definition records_with_key :: "listing list \<Rightarrow> string \<Rightarrow> string \<Rightarrow> listing list" where
  \<comment> \<open>the stored records of one (title, link)\<close>
  "records_with_key rs t l = filter (\<lambda>(t', l', p'). t' = t \<and> l' = l) rs"

definition sqlite_integer :: "int \<Rightarrow> bool" where
  \<comment> \<open>the integers the database binding accepts: 64 bits, signed\<close>
  "sqlite_integer p \<longleftrightarrow> - (2 ^ 63) \<le> p \<and> p < 2 ^ 63"

definition open_db :: "listing list \<Rightarrow> db_manager" where
  \<comment> \<open>\<^verbatim>\<open>DatabaseManager.__init__\<close> on a database file holding the given rows:
      \<^verbatim>\<open>CREATE TABLE IF NOT EXISTS\<close> keeps them, the session list starts empty.\<close>
  "open_db stored = \<lparr>rows = stored, new_listings = [], db_log = []\<rparr>"

definition insert_listing ::
  "bool \<Rightarrow> db_manager \<Rightarrow> string \<Rightarrow> string \<Rightarrow> int option \<Rightarrow> db_manager \<times> completion" where
  \<comment> \<open>The first argument says whether executing the statement raises \<^verbatim>\<open>sqlite3.Error\<close>,
      which the source catches. A price outside 64 bits makes the binding of the
      parameters raise \<^verbatim>\<open>OverflowError\<close>, which the source does not catch: the call ends
      \<open>Raised\<close> and the transaction is rolled back. The source returns nothing: what it
      reports is the state.\<close>
  "insert_listing db_fails db title link price =
     (case price of
        None \<Rightarrow> (db, Returned)
      | Some p \<Rightarrow>
          if title \<noteq> [] \<and> link \<noteq> [] then
            (let t = sanitize_input title; l = sanitize_input link in
               if \<not> sqlite_integer p then (db, Raised)
               else if db_fails then (db\<lparr>db_log := db_log db @ [Failed_to_insert t]\<rparr>, Returned)
               else if has_key (rows db) t l then (db, Returned)
               else (db\<lparr>rows := rows db @ [(t, l, p)],
                        new_listings := new_listings db @ [(t, l, p)],
                        db_log := db_log db @ [New_listing_added t p l]\<rparr>, Returned))
          else (db, Returned))"

definition get_new_listings :: "db_manager \<Rightarrow> listing list" where
  "get_new_listings db = new_listings db"

definition fetch_all_listings :: "db_manager \<Rightarrow> listing list" where
  "fetch_all_listings db = rows db"

section \<open>Email notification\<close>

text \<open>
  The module-level \<^verbatim>\<open>last_notification_time\<close> becomes a field of an explicit state,
  together with the messages handed to the mail server (each one stands for the
  rendering of the listings it was given) and the lines logged. Time stamps are real
  numbers of seconds. \<^verbatim>\<open>time.time()\<close> is read twice in the source, once for the
  throttle test and once for the new stamp: the two readings are two arguments.
\<close>

record notifier =
  last_notification_time :: real
  outbox :: "listing list list"
  notify_log :: "log_msg list"

datatype smtp_outcome =
    Delivered
  | SMTP_exception    \<comment> \<open>\<^verbatim>\<open>smtplib.SMTPException\<close>, caught by the source\<close>
  | Other_exception   \<comment> \<open>any other exception of the \<^verbatim>\<open>with\<close> block, not caught\<close>

definition init_notifier :: "real \<Rightarrow> notifier" where
  \<comment> \<open>module import: \<^verbatim>\<open>last_notification_time = time.time()\<close>\<close>
  "init_notifier start = \<lparr>last_notification_time = start, outbox = [], notify_log = []\<rparr>"

definition send_notification ::
  "smtp_outcome \<Rightarrow> real \<Rightarrow> real \<Rightarrow> listing list \<Rightarrow> notifier \<Rightarrow> notifier \<times> completion" where
  "send_notification smtp t_check t_stamp listings s =
     (if t_check - last_notification_time s < 3600 then
        (s\<lparr>notify_log := notify_log s @ [Notification_throttled]\<rparr>, Returned)
      else
        (let s1 = s\<lparr>last_notification_time := t_stamp\<rparr> in
           if listings = [] then
             (s1\<lparr>notify_log := notify_log s1 @ [No_new_listings]\<rparr>, Returned)
           else
             (case smtp of
                Delivered \<Rightarrow>
                  (s1\<lparr>outbox := outbox s1 @ [listings],
                       notify_log := notify_log s1 @ [Notification_sent]\<rparr>, Returned)
              | SMTP_exception \<Rightarrow>
                  (s1\<lparr>notify_log := notify_log s1 @ [Failed_to_send_notification]\<rparr>, Returned)
              | Other_exception \<Rightarrow> (s1, Raised))))"

section \<open>Price parsing\<close>

text \<open>
  \<^verbatim>\<open>Price.fromstring\<close> belongs to the library \<^verbatim>\<open>price_parser\<close>; the amount it finds
  (a decimal number, or none) is a parameter \<open>amount\<close> of the model.
\<close>

definition int_of_decimal :: "rat \<Rightarrow> int" where
  \<comment> \<open>\<^verbatim>\<open>int(d)\<close> truncates towards zero\<close>
  "int_of_decimal a = (if 0 \<le> a then \<lfloor>a\<rfloor> else \<lceil>a\<rceil>)"

definition parse_price :: "(string \<Rightarrow> rat option) \<Rightarrow> string \<Rightarrow> int option \<times> log_msg list" where
  \<comment> \<open>the result, and what the call logs\<close>
  "parse_price amount price_str =
     (case amount price_str of
        Some a \<Rightarrow> (Some (int_of_decimal a), [])
      | None \<Rightarrow> (None, [Could_not_convert_price price_str]))"

section \<open>The spider\<close>

fun find_close :: "string \<Rightarrow> string option" where
  \<comment> \<open>after a \<^verbatim>\<open><\<close>: the text behind the first \<^verbatim>\<open>>\<close>, when no line feed comes before it
      (the dot of the pattern does not match a line feed)\<close>
  "find_close [] = None"
| "find_close (c # cs) =
     (if c = CHR ''>'' then Some cs else if c = CHR 0x0A then None else find_close cs)"

lemma find_close_length: "find_close cs = Some r \<Longrightarrow> length r < Suc (length cs)"
  by (induction cs) (auto split: if_splits)

function strip_tags :: "string \<Rightarrow> string" where
  \<comment> \<open>\<^verbatim>\<open>re.sub(r'<.*?>', '', s)\<close>\<close>
  "strip_tags [] = []"
| "strip_tags (c # cs) =
     (if c = CHR ''<'' then
        (case find_close cs of Some r \<Rightarrow> strip_tags r | None \<Rightarrow> c # strip_tags cs)
      else c # strip_tags cs)"
  by pat_completeness auto
termination strip_tags
  by (relation "measure length") (auto dest: find_close_length)

text \<open>
  The selectors of a site are a dictionary from the keys \<^verbatim>\<open>listing_item\<close>, \<^verbatim>\<open>title\<close>
  and \<^verbatim>\<open>price\<close> to selector strings, as the configuration file gives it: an
  association list, read with \<open>getitem\<close>. A node of the page is what
  \<^verbatim>\<open>node.css(selector).get()\<close> gives for each selector; a response carries its url, its
  status and what \<^verbatim>\<open>response.css(selector)\<close> selects. Both selections raise on a
  selector that the page cannot be queried with.
\<close>

type_synonym selector_dict = "(string \<times> string) list"

definition getitem :: "selector_dict \<Rightarrow> string \<Rightarrow> py_exception + string" where
  \<comment> \<open>\<^verbatim>\<open>d[key]\<close>\<close>
  "getitem d k = (case map_of d k of None \<Rightarrow> Inl KeyError | Some v \<Rightarrow> Inr v)"

type_synonym node = "string \<Rightarrow> py_exception + string option"

record response =
  resp_url :: string
  resp_status :: nat
  resp_css :: "string \<Rightarrow> py_exception + node list"

text \<open>
  What the spider takes from outside: the price band of the configuration, the two
  library functions \<^verbatim>\<open>Price.fromstring(...).amount\<close> and \<^verbatim>\<open>urljoin\<close> (which raises
  \<^verbatim>\<open>ValueError\<close> on some references), and whether the database fails on an insert.
\<close>

record env =
  min_price :: int
  max_price :: int
  price_amount :: "string \<Rightarrow> rat option"
  urljoin :: "string \<Rightarrow> string option \<Rightarrow> py_exception + string"
  sql_error :: "string \<times> string \<times> int \<Rightarrow> bool"

record spider =
  urls :: "string list"
  current_url_index :: nat
  db_manager :: db_manager
  selectors :: "string \<rightharpoonup> selector_dict"
  spider_log :: "log_msg list"

definition init_spider :: "string list \<Rightarrow> db_manager \<Rightarrow> (string \<rightharpoonup> selector_dict) \<Rightarrow> spider" where
  \<comment> \<open>\<^verbatim>\<open>Pavouk.__init__\<close>\<close>
  "init_spider us db sels =
     \<lparr>urls = us, current_url_index = 0, db_manager = db, selectors = sels, spider_log = []\<rparr>"

definition make_request :: "spider \<Rightarrow> spider \<times> string option" where
  "make_request sp =
     (if current_url_index sp < length (urls sp) then
        (let current_url = urls sp ! current_url_index sp in
           (sp\<lparr>spider_log := spider_log sp @ [Starting_request current_url]\<rparr>, Some current_url))
      else (sp, None))"

definition start_requests :: "spider \<Rightarrow> spider \<times> string option" where
  "start_requests sp = make_request sp"

definition element_text :: "string option \<Rightarrow> string \<Rightarrow> string" where
  \<comment> \<open>\<^verbatim>\<open>re.sub(r'<.*?>', '', el).strip() if el else fallback\<close>\<close>
  "element_text el fallback =
     (case el of
        None \<Rightarrow> fallback
      | Some t \<Rightarrow> if t = [] then fallback else strip (strip_tags t))"

definition process_listing ::
  "env \<Rightarrow> selector_dict \<Rightarrow> string \<Rightarrow> db_manager \<times> log_msg list \<times> nat \<Rightarrow> node
     \<Rightarrow> (db_manager \<times> log_msg list \<times> nat) \<times> py_exception option" where
  \<comment> \<open>the body of the loop over the listings of a page: the state after it, and the
      exception that left it (if any)\<close>
  "process_listing e sel base st listing =
     (case st of (db, lg, listings_found) \<Rightarrow>
      (case getitem sel ''title'' of Inl x \<Rightarrow> (st, Some x) | Inr title_sel \<Rightarrow>
      (case listing title_sel of Inl x \<Rightarrow> (st, Some x) | Inr title_element \<Rightarrow>
      (case getitem sel ''price'' of Inl x \<Rightarrow> (st, Some x) | Inr price_sel \<Rightarrow>
      (case listing price_sel of Inl x \<Rightarrow> (st, Some x) | Inr price_str_element \<Rightarrow>
        (let title = element_text title_element ''No title found'';
             price_str = element_text price_str_element ''No price found'';
             lg1 = lg @ [Found_title_price title price_str];
             pr = parse_price (price_amount e) price_str;
             lg2 = lg1 @ snd pr
         in case fst pr of
              None \<Rightarrow> ((db, lg2 @ [Skipping title None], listings_found), None)
            | Some p \<Rightarrow>
                if min_price e \<le> p \<and> p \<le> max_price e then
                  (case listing ''a::attr(href)'' of
                     Inl x \<Rightarrow> ((db, lg2, listings_found), Some x)
                   | Inr href \<Rightarrow>
                  (case urljoin e base href of
                     Inl x \<Rightarrow> ((db, lg2, listings_found), Some x)
                   | Inr link \<Rightarrow>
                  (case insert_listing (sql_error e (title, link, p)) db title link (Some p) of
                     (db', Raised) \<Rightarrow> ((db', lg2, listings_found), Some OverflowError)
                   | (db', Returned) \<Rightarrow> ((db', lg2, listings_found + 1), None))))
                else ((db, lg2 @ [Skipping title (Some p)], listings_found), None)))))))"

fun process_listings ::
  "env \<Rightarrow> selector_dict \<Rightarrow> string \<Rightarrow> node list \<Rightarrow> db_manager \<times> log_msg list \<times> nat
     \<Rightarrow> (db_manager \<times> log_msg list \<times> nat) \<times> py_exception option" where
  \<comment> \<open>the loop: it ends at the first exception\<close>
  "process_listings e sel base [] st = (st, None)"
| "process_listings e sel base (listing # rest) st =
     (case process_listing e sel base st listing of
        (st', None) \<Rightarrow> process_listings e sel base rest st'
      | (st', Some x) \<Rightarrow> (st', Some x))"

definition extract_listings ::
  "env \<Rightarrow> spider \<Rightarrow> response \<Rightarrow> log_msg list \<Rightarrow> (db_manager \<times> log_msg list) \<times> py_exception option" where
  \<comment> \<open>the first part of \<open>parse\<close>, under \<^verbatim>\<open>if url_selectors := self.selectors.get(response.url)\<close>;
      an empty dictionary counts as absent\<close>
  "extract_listings e sp r lg0 =
     (case selectors sp (resp_url r) of
        None \<Rightarrow> ((db_manager sp, lg0), None)
      | Some sel \<Rightarrow>
          if sel = [] then ((db_manager sp, lg0), None)
          else
           (case getitem sel ''listing_item'' of
              Inl x \<Rightarrow> ((db_manager sp, lg0), Some x)
            | Inr item_sel \<Rightarrow>
           (case resp_css r item_sel of
              Inl x \<Rightarrow> ((db_manager sp, lg0), Some x)
            | Inr listings \<Rightarrow>
                (let lg = lg0 @ [Number_of_listings (length listings)] in
                   if listings = [] then ((db_manager sp, lg @ [No_listings_found (resp_url r)]), None)
                   else
                     (case process_listings e sel (resp_url r) listings (db_manager sp, lg, 0) of
                        ((db, lg', listings_found), None) \<Rightarrow>
                          ((db, lg' @ [Total_processed listings_found]), None)
                      | ((db, lg', listings_found), Some x) \<Rightarrow> ((db, lg'), Some x))))))"

definition parse :: "env \<Rightarrow> spider \<Rightarrow> response \<Rightarrow> spider \<times> (py_exception + string option)" where
  \<comment> \<open>the callback: the spider after it, and either the exception that left it or the
      request it yields (if any). The cursor moves only when the first part ended
      without an exception.\<close>
  "parse e sp r =
     (let done = extract_listings e sp r (spider_log sp @ [Parsing_response (resp_url r) (resp_status r)])
      in case snd done of
           Some x \<Rightarrow> (sp\<lparr>db_manager := fst (fst done), spider_log := snd (fst done)\<rparr>, Inl x)
         | None \<Rightarrow>
             (case make_request
                     (sp\<lparr>db_manager := fst (fst done), spider_log := snd (fst done),
                         current_url_index := current_url_index sp + 1\<rparr>) of
                (sp', nxt) \<Rightarrow> (sp', Inr nxt)))"

text \<open>
  The crawling framework is not code of the repository. What the spider gives it is
  \<open>start_requests\<close>, called once, and the callback \<open>parse\<close> of each request; a request has
  no error callback. For each request that the spider yields the framework either calls
  the callback once, with a response, or never calls it (the download failed, the
  response was filtered for its status, the request was dropped as a repetition). These
  decisions, one for each request in turn, are a parameter of the model; when they run
  out the request gets no callback. A run ends when no request is left (\<open>Closed\<close>), when
  a request gets no callback (\<open>Not_delivered\<close>) or when the callback raises. The trace
  lists the requests yielded, each with the cursor of the spider at that moment.
\<close>

datatype delivery = Callback response | No_callback

datatype run_end = Closed | Not_delivered | Callback_raised py_exception

fun engine ::
  "env \<Rightarrow> delivery list \<Rightarrow> spider \<Rightarrow> string option \<Rightarrow> (nat \<times> string) list
     \<Rightarrow> spider \<times> (nat \<times> string) list \<times> run_end" where
  "engine e ds sp None trace = (sp, trace, Closed)"
| "engine e [] sp (Some u) trace = (sp, trace @ [(current_url_index sp, u)], Not_delivered)"
| "engine e (No_callback # ds) sp (Some u) trace =
     (sp, trace @ [(current_url_index sp, u)], Not_delivered)"
| "engine e (Callback r # ds) sp (Some u) trace =
     (case parse e sp r of
        (sp', Inl x) \<Rightarrow> (sp', trace @ [(current_url_index sp, u)], Callback_raised x)
      | (sp', Inr nxt) \<Rightarrow> engine e ds sp' nxt (trace @ [(current_url_index sp, u)]))"

definition crawl :: "env \<Rightarrow> delivery list \<Rightarrow> spider \<Rightarrow> spider \<times> (nat \<times> string) list \<times> run_end" where
  \<comment> \<open>\<^verbatim>\<open>process.crawl(Pavouk, ...)\<close> and \<^verbatim>\<open>process.start()\<close>\<close>
  "crawl e ds sp = (case start_requests sp of (sp0, req) \<Rightarrow> engine e ds sp0 req [])"

definition requested :: "spider \<times> (nat \<times> string) list \<times> run_end \<Rightarrow> (nat \<times> string) list" where
  "requested run = fst (snd run)"

definition ended :: "spider \<times> (nat \<times> string) list \<times> run_end \<Rightarrow> run_end" where
  "ended run = snd (snd run)"

subsection \<open>Pages of the examples\<close>

text \<open>
  The page of the end-to-end example: one listing node with the title element
  \<^verbatim>\<open><h2>Nice Flat</h2>\<close>, the price element \<^verbatim>\<open><span>$1,200</span>\<close> and the link
  \<^verbatim>\<open>/x\<close>, served at \<^verbatim>\<open>https://a.example/list\<close>. \<open>ex_broken_page\<close> is the same page with
  the link \<^verbatim>\<open>http://[\<close>, and \<open>ex_empty_page\<close> a page of a second site, without
  listings. \<open>ex_env\<close> tabulates what the two libraries do on the inputs of the examples:
  the amount 1200 for \<^verbatim>\<open>$1,200\<close>, the joined url \<^verbatim>\<open>https://a.example/x\<close>, and
  \<^verbatim>\<open>ValueError\<close> from \<^verbatim>\<open>urljoin\<close> for the reference \<^verbatim>\<open>http://[\<close>.
\<close>

definition ex_selector_set :: selector_dict where
  "ex_selector_set = [(''listing_item'', ''div.listing''), (''title'', ''h2''), (''price'', ''span'')]"

definition ex_selectors :: "string \<rightharpoonup> selector_dict" where
  "ex_selectors = [''https://a.example/list'' \<mapsto> ex_selector_set]"

definition ex_item :: "string \<Rightarrow> node" where
  \<comment> \<open>the listing node, with the given link\<close>
  "ex_item href s =
     (if s = ''h2'' then Inr (Some ''<h2>Nice Flat</h2>'')
      else if s = ''span'' then Inr (Some ''<span>$1,200</span>'')
      else if s = ''a::attr(href)'' then Inr (Some href)
      else Inr None)"

definition ex_page :: response where
  "ex_page =
     \<lparr>resp_url = ''https://a.example/list'', resp_status = 200,
      resp_css = (\<lambda>s. if s = ''div.listing'' then Inr [ex_item ''/x''] else Inr [])\<rparr>"

definition ex_broken_page :: response where
  "ex_broken_page =
     \<lparr>resp_url = ''https://a.example/list'', resp_status = 200,
      resp_css = (\<lambda>s. if s = ''div.listing'' then Inr [ex_item ''http://[''] else Inr [])\<rparr>"

definition ex_empty_page :: response where
  "ex_empty_page =
     \<lparr>resp_url = ''https://b.example/list'', resp_status = 200, resp_css = (\<lambda>s. Inr [])\<rparr>"

definition ex_env :: env where
  "ex_env =
     \<lparr>min_price = 1000, max_price = 2000,
      price_amount = (\<lambda>s. if s = ''$1,200'' then Some 1200 else None),
      urljoin = (\<lambda>base ref.
         if ref = Some ''http://['' then Inl ValueError
         else if base = ''https://a.example/list'' \<and> ref = Some ''/x'' then Inr ''https://a.example/x''
         else Inr base),
      sql_error = (\<lambda>l. False)\<rparr>"

section \<open>URL validation\<close>

datatype http_result =
    Request_exception             \<comment> \<open>\<^verbatim>\<open>requests.RequestException\<close>\<close>
  | Http_response nat string      \<comment> \<open>status code and text\<close>

definition scheme_rest :: "string \<Rightarrow> string option" where
  \<comment> \<open>the text behind \<^verbatim>\<open>http://\<close> or \<^verbatim>\<open>https://\<close>, in any letter case\<close>
  "scheme_rest url =
     (if lower (take 7 url) = ''http://'' then Some (drop 7 url)
      else if lower (take 8 url) = ''https://'' then Some (drop 8 url)
      else None)"

definition url_pattern_match :: "string \<Rightarrow> bool" where
  \<comment> \<open>\<^verbatim>\<open>re.compile(r'^(?:http|https)://[^\s/$.?#].[^\s]*$', re.IGNORECASE).match(url)\<close>;
      the final \<^verbatim>\<open>$\<close> also matches before a line feed that ends the text\<close>
  "url_pattern_match url =
     (case scheme_rest url of
        None \<Rightarrow> False
      | Some rest \<Rightarrow>
          (case rest of
             c1 # c2 # tail \<Rightarrow>
               \<not> is_space c1 \<and> \<not> List.member ''/$.?#'' c1 \<and> c2 \<noteq> CHR 0x0A
               \<and> list_all (\<lambda>c. \<not> is_space c)
                    (if tail \<noteq> [] \<and> last tail = CHR 0x0A then butlast tail else tail)
           | _ \<Rightarrow> False))"

definition robots_url :: "string \<Rightarrow> string" where
  "robots_url domain = ''https://'' @ domain @ ''/robots.txt''"

definition is_linebreak :: "char \<Rightarrow> bool" where
  \<comment> \<open>the line boundaries of \<^verbatim>\<open>str.splitlines\<close>: LF, VT, FF, CR, FS, GS, RS and NEL (133)\<close>
  "is_linebreak c \<longleftrightarrow>
     (let n = (of_char c :: nat) in (10 \<le> n \<and> n \<le> 13) \<or> (28 \<le> n \<and> n \<le> 30) \<or> n = 133)"

fun split_acc :: "string \<Rightarrow> string \<Rightarrow> string list" where
  \<comment> \<open>the first argument is the line being read, reversed; CR LF is one boundary\<close>
  "split_acc acc [] = (if acc = [] then [] else [rev acc])"
| "split_acc acc (c # cs) =
     (if is_linebreak c then
        (case cs of
           d # ds \<Rightarrow>
             if c = CHR 0x0D \<and> d = CHR 0x0A then rev acc # split_acc [] ds
             else rev acc # split_acc [] cs
         | [] \<Rightarrow> rev acc # split_acc [] cs)
      else split_acc (c # acc) cs)"

definition splitlines :: "string \<Rightarrow> string list" where
  "splitlines s = split_acc [] s"

definition last_field :: "string \<Rightarrow> string" where
  \<comment> \<open>\<^verbatim>\<open>line.split(' ')[-1]\<close>\<close>
  "last_field line = rev (takeWhile (\<lambda>c. c \<noteq> CHR '' '') (rev line))"

definition disallowed_paths :: "string \<Rightarrow> string \<Rightarrow> string list" where
  "disallowed_paths user_agent text =
     map last_field
       (filter (\<lambda>line. prefix ''Disallow:'' line \<and> sublist user_agent line) (splitlines text))"

definition disallowed :: "string \<Rightarrow> string \<Rightarrow> string list \<Rightarrow> bool" where
  \<comment> \<open>\<^verbatim>\<open>any(url.startswith(f"https://{domain}{path}") for path in disallowed_paths)\<close>\<close>
  "disallowed url domain paths = list_ex (\<lambda>path. prefix (''https://'' @ domain @ path) url) paths"

text \<open>
  \<^verbatim>\<open>urlparse(url).netloc\<close> and \<^verbatim>\<open>requests.get\<close> are library calls: two parameters,
  \<open>urlparse_netloc\<close> and \<open>http_get\<close>. \<^verbatim>\<open>urlparse\<close> raises \<^verbatim>\<open>ValueError\<close> on some urls (an
  unbalanced square bracket in the host, for one); the call stands outside the
  \<^verbatim>\<open>try\<close> of the source, so the exception leaves \<open>validate_urls\<close> and the set built so
  far is lost.
\<close>

fun validate_loop ::
  "(string \<Rightarrow> py_exception + string) \<Rightarrow> (string \<Rightarrow> http_result) \<Rightarrow> string \<Rightarrow> string list
     \<Rightarrow> string set \<Rightarrow> py_exception + string set" where
  "validate_loop urlparse_netloc http_get user_agent [] valid_urls = Inr valid_urls"
| "validate_loop urlparse_netloc http_get user_agent (url # rest) valid_urls =
     (if url_pattern_match url then
        (case urlparse_netloc url of
           Inl x \<Rightarrow> Inl x
         | Inr domain \<Rightarrow>
             (case http_get (robots_url domain) of
                Request_exception \<Rightarrow>
                  validate_loop urlparse_netloc http_get user_agent rest valid_urls
              | Http_response status_code body \<Rightarrow>
                  if status_code = 200 then
                    (if \<not> disallowed url domain (disallowed_paths user_agent body)
                     then validate_loop urlparse_netloc http_get user_agent rest (insert url valid_urls)
                     else validate_loop urlparse_netloc http_get user_agent rest valid_urls)
                  else validate_loop urlparse_netloc http_get user_agent rest valid_urls))
      else validate_loop urlparse_netloc http_get user_agent rest valid_urls)"

definition validate_urls ::
  "(string \<Rightarrow> py_exception + string) \<Rightarrow> (string \<Rightarrow> http_result) \<Rightarrow> string \<Rightarrow> string list
     \<Rightarrow> py_exception + string set" where
  \<comment> \<open>the set \<^verbatim>\<open>valid_urls\<close>; the source returns it as a list, in no particular order\<close>
  "validate_urls urlparse_netloc http_get user_agent url_list =
     validate_loop urlparse_netloc http_get user_agent url_list {}"


subsection \<open>Two robots files\<close>

text \<open>
  \<open>ex_robots\<close> is an ordinary robots file: a group for the agent \<^verbatim>\<open>my_scraper\<close> that
  disallows \<^verbatim>\<open>/private\<close>. In \<open>ex_robots_named\<close> the disallowed path itself contains
  the name of the agent. \<open>ex_http_get\<close> serves a robots file for the host
  \<^verbatim>\<open>a.example\<close> with status 200; any other request fails. \<open>ex_urlparse\<close> tabulates
  what \<^verbatim>\<open>urlparse\<close> does on the urls of the examples: the host \<^verbatim>\<open>a.example\<close> for the
  urls of that host, and \<^verbatim>\<open>ValueError\<close> for \<^verbatim>\<open>http://[::1/x\<close>.
\<close>

definition ex_robots :: string where
  "ex_robots = ''User-agent: my_scraper'' @ [CHR 0x0A] @ ''Disallow: /private'' @ [CHR 0x0A]"


definition ex_http_get :: "string \<Rightarrow> string \<Rightarrow> http_result" where
  "ex_http_get robots u =
     (if u = ''https://a.example/robots.txt'' then Http_response 200 robots else Request_exception)"

definition ex_urlparse :: "string \<Rightarrow> py_exception + string" where
  "ex_urlparse u =
     (if prefix ''https://a.example/'' u \<or> prefix ''http://a.example/'' u then Inr ''a.example''
      else Inl ValueError)"

section \<open>Properties of the store\<close>

lemma insert_listing_guard:
  "title = [] \<or> link = [] \<or> price = None \<Longrightarrow>
     insert_listing e db title link price = (db, Returned)"
  by (auto simp: insert_listing_def split: option.splits)

text \<open>
  C9. A call of \<open>insert_listing\<close> with an empty title, an empty link or the price
  \<open>None\<close> returns normally and leaves the whole object as it was: no row is created,
  the list of new listings is unchanged and nothing is logged, whether or not the
  database would fail.
\<close>

theorem insert_listing_degenerate_noop:
  assumes "title = [] \<or> link = [] \<or> price = None"
  shows "insert_listing db_fails db title link price = (db, Returned)
       \<and> fetch_all_listings (fst (insert_listing db_fails db title link price)) = fetch_all_listings db
       \<and> get_new_listings (fst (insert_listing db_fails db title link price)) = get_new_listings db
       \<and> db_log (fst (insert_listing db_fails db title link price)) = db_log db"
  using assms by (simp add: insert_listing_guard)

theorem insert_listing_degenerate_noop_witness:
  "insert_listing False (open_db [(''a'', ''b'', 1)]) [] ''https://a.example/x'' (Some 1200)
     = (open_db [(''a'', ''b'', 1)], Returned)
   \<and> insert_listing False (open_db []) ''Nice Flat'' [] (Some 1200) = (open_db [], Returned)
   \<and> insert_listing True (open_db []) ''Nice Flat'' ''https://a.example/x'' None
     = (open_db [], Returned)"
  using insert_listing_degenerate_noop [of "[]" "''https://a.example/x''" "Some 1200" False "open_db [(''a'', ''b'', 1)]"]
    insert_listing_degenerate_noop [of "''Nice Flat''" "[]" "Some 1200" False "open_db []"]
    insert_listing_degenerate_noop [of "''Nice Flat''" "''https://a.example/x''" None True "open_db []"]
  by simp

lemma insert_listing_present:
  "has_key (rows d) (sanitize_input t) (sanitize_input l) \<Longrightarrow> sqlite_integer p \<Longrightarrow>
     insert_listing False d t l (Some p) = (d, Returned)"
  by (simp add: insert_listing_def Let_def)

lemma insert_listing_fresh:
  "t \<noteq> [] \<Longrightarrow> l \<noteq> [] \<Longrightarrow> sqlite_integer p \<Longrightarrow>
   \<not> has_key (rows d) (sanitize_input t) (sanitize_input l) \<Longrightarrow>
     insert_listing False d t l (Some p)
       = (d\<lparr>rows := rows d @ [(sanitize_input t, sanitize_input l, p)],
            new_listings := new_listings d @ [(sanitize_input t, sanitize_input l, p)],
            db_log := db_log d @ [New_listing_added (sanitize_input t) p (sanitize_input l)]\<rparr>,
          Returned)"
  by (simp add: insert_listing_def Let_def)

lemma records_with_key_absent:
  "\<not> has_key rs t l \<Longrightarrow> records_with_key rs t l = []"
  by (auto simp: has_key_def records_with_key_def list_ex_iff filter_empty_conv)

lemma sqlite_integer_1200: "sqlite_integer 1200"
  by (simp add: sqlite_integer_def)

lemma sanitize_title: "sanitize_input ''Nice Flat'' = ''nice flat''" by code_simp
lemma sanitize_title_variant: "sanitize_input ''NICE, flat!'' = ''nice flat''" by code_simp
lemma sanitize_link: "sanitize_input ''https://a.example/x'' = ''httpsaexamplex''" by code_simp
lemma sanitize_link_variant: "sanitize_input ''HTTPS://A.example/x?'' = ''httpsaexamplex''" by code_simp

lemma sanitize_accented:
  "sanitize_input (''Caf'' @ [CHR 0xC9] @ ''!'' @ [CHR 0xA0]) = ''caf'' @ [CHR 0xE9]"
  by code_simp

text \<open>
  C2, as stated, at an empty title: the guard of \<open>insert_listing\<close> skips both calls, so
  inserting the same triple twice into an empty table stores no record at all, and the
  first call reports nothing as new.
\<close>

theorem insert_listing_twice_counterexample:
  "fetch_all_listings
     (fst (insert_listing False
        (fst (insert_listing False (open_db []) [] ''https://a.example/x'' (Some 1200)))
        [] ''https://a.example/x'' (Some 1200))) = []
   \<and> get_new_listings
     (fst (insert_listing False (open_db []) [] ''https://a.example/x'' (Some 1200))) = []"
  by (simp add: insert_listing_def fetch_all_listings_def get_new_listings_def open_db_def)

text \<open>
  C2, amended. For a non-empty title and link and a price that fits the 64 bits of a
  database integer, when no record of the sanitized (title, link) is stored yet and the
  database executes the statements: the first insert returns normally and appends
  exactly the sanitized record to the table and to the list of new listings; a second
  insert of the same price with any title and link that sanitize to the same key
  returns normally and changes nothing; the table then holds exactly one record of
  that key.
\<close>

theorem insert_listing_twice:
  assumes "title \<noteq> []" and "link \<noteq> []" and "sqlite_integer price"
    and "sanitize_input title' = sanitize_input title"
    and "sanitize_input link' = sanitize_input link"
    and "\<not> has_key (rows db) (sanitize_input title) (sanitize_input link)"
  shows "(let t = sanitize_input title; l = sanitize_input link;
              first = insert_listing False db title link (Some price);
              second = insert_listing False (fst first) title' link' (Some price)
          in snd first = Returned
           \<and> fetch_all_listings (fst first) = fetch_all_listings db @ [(t, l, price)]
           \<and> get_new_listings (fst first) = get_new_listings db @ [(t, l, price)]
           \<and> second = (fst first, Returned)
           \<and> records_with_key (fetch_all_listings (fst second)) t l = [(t, l, price)])"
proof -
  let ?t = "sanitize_input title" and ?l = "sanitize_input link"
  let ?db1 = "db\<lparr>rows := rows db @ [(?t, ?l, price)],
                  new_listings := new_listings db @ [(?t, ?l, price)],
                  db_log := db_log db @ [New_listing_added ?t price ?l]\<rparr>"
  have first: "insert_listing False db title link (Some price) = (?db1, Returned)"
    using assms(1,2,3,6) by (rule insert_listing_fresh)
  have key: "has_key (rows ?db1) (sanitize_input title') (sanitize_input link')"
    by (simp add: assms(4,5) has_key_def)
  have second: "insert_listing False ?db1 title' link' (Some price) = (?db1, Returned)"
    using key assms(3) by (rule insert_listing_present)
  have one: "records_with_key (rows db @ [(?t, ?l, price)]) ?t ?l = [(?t, ?l, price)]"
    using records_with_key_absent [OF assms(6)] by (simp add: records_with_key_def)
  show ?thesis
    unfolding Let_def first fst_conv snd_conv second
    by (simp add: one fetch_all_listings_def get_new_listings_def)
qed

theorem insert_listing_twice_witness:
  "fetch_all_listings
     (fst (insert_listing False (open_db []) ''Nice Flat'' ''https://a.example/x'' (Some 1200)))
     = [(''nice flat'', ''httpsaexamplex'', 1200)]
   \<and> get_new_listings
     (fst (insert_listing False (open_db []) ''Nice Flat'' ''https://a.example/x'' (Some 1200)))
     = [(''nice flat'', ''httpsaexamplex'', 1200)]
   \<and> insert_listing False
        (fst (insert_listing False (open_db []) ''Nice Flat'' ''https://a.example/x'' (Some 1200)))
        ''NICE, flat!'' ''HTTPS://A.example/x?'' (Some 1200)
     = (fst (insert_listing False (open_db []) ''Nice Flat'' ''https://a.example/x'' (Some 1200)),
        Returned)"
proof -
  have e: "sanitize_input ''NICE, flat!'' = sanitize_input ''Nice Flat''"
    "sanitize_input ''HTTPS://A.example/x?'' = sanitize_input ''https://a.example/x''"
    by (simp_all add: sanitize_title sanitize_title_variant sanitize_link sanitize_link_variant)
  have k: "\<not> has_key (rows (open_db [])) (sanitize_input ''Nice Flat'') (sanitize_input ''https://a.example/x'')"
    by (simp add: has_key_def open_db_def)
  have f: "fetch_all_listings (open_db []) = []" "get_new_listings (open_db []) = []"
    by (simp_all add: fetch_all_listings_def get_new_listings_def open_db_def)
  from insert_listing_twice [OF _ _ sqlite_integer_1200 e k] show ?thesis
    by (simp add: Let_def sanitize_title sanitize_link f)
qed

section \<open>Properties of the notifier\<close>

text \<open>
  C3, as stated, in a process started at time 0: a call with no listings at time 4000
  is not throttled, and the source stores the new time stamp before it looks at the
  list, so the stamp moves from 0 to the second clock reading.
\<close>

theorem send_notification_empty_counterexample:
  "last_notification_time (fst (send_notification Delivered 4000 4001 [] (init_notifier 0)))
     \<noteq> last_notification_time (init_notifier 0)
   \<and> last_notification_time (fst (send_notification Delivered 4000 4001 [] (init_notifier 0))) = 4001"
  by (simp add: send_notification_def init_notifier_def)

text \<open>
  C3, amended. A call of \<open>send_notification\<close> with an empty list never hands a message
  to the mail server and returns normally; the time stamp is unchanged when the call
  is throttled (less than 3600 seconds since the stored stamp) and is set to the
  current time otherwise.
\<close>

theorem send_notification_empty:
  "outbox (fst (send_notification smtp t_check t_stamp [] s)) = outbox s
   \<and> snd (send_notification smtp t_check t_stamp [] s) = Returned
   \<and> last_notification_time (fst (send_notification smtp t_check t_stamp [] s))
       = (if t_check - last_notification_time s < 3600 then last_notification_time s else t_stamp)"
  by (simp add: send_notification_def Let_def)

theorem send_notification_empty_witness:
  "outbox (fst (send_notification Delivered 100 101 [] (init_notifier 0))) = []
   \<and> last_notification_time (fst (send_notification Delivered 100 101 [] (init_notifier 0))) = 0
   \<and> last_notification_time (fst (send_notification Delivered 3600 3601 [] (init_notifier 0))) = 3601"
  using send_notification_empty [of Delivered 100 101 "init_notifier 0"]
    send_notification_empty [of Delivered 3600 3601 "init_notifier 0"]
  by (simp add: init_notifier_def)

text \<open>
  C4, as stated: the dispatch of a non-empty list at time 4000 in a process started at
  time 0 fails with \<^verbatim>\<open>SMTPException\<close>; the time stamp has already been moved.
\<close>

theorem send_notification_failure_counterexample:
  "last_notification_time
     (fst (send_notification SMTP_exception 4000 4001 [(''nice flat'', ''httpsaexamplex'', 1200)]
            (init_notifier 0)))
     \<noteq> last_notification_time (init_notifier 0)
   \<and> last_notification_time
     (fst (send_notification SMTP_exception 4000 4001 [(''nice flat'', ''httpsaexamplex'', 1200)]
            (init_notifier 0))) = 4001"
  by (simp add: send_notification_def init_notifier_def)

text \<open>
  C4, amended. When a dispatch is attempted (non-empty list, not throttled) and the
  mail server fails with \<^verbatim>\<open>smtplib.SMTPException\<close>, the failure is logged as an error,
  the call returns normally, no message is recorded as sent, and the time stamp is the
  one stored before the attempt: a later call less than 3600 seconds after it is
  throttled and sends nothing, whatever the mail server would do.
\<close>

theorem send_notification_failure:
  assumes "listings \<noteq> []" and "\<not> t_check - last_notification_time s < 3600"
  shows "send_notification SMTP_exception t_check t_stamp listings s
           = (s\<lparr>last_notification_time := t_stamp,
                 notify_log := notify_log s @ [Failed_to_send_notification]\<rparr>, Returned)
       \<and> level_of Failed_to_send_notification = ERROR
       \<and> (t_next - t_stamp < 3600 \<longrightarrow>
            outbox (fst (send_notification smtp' t_next t_next' listings'
                          (fst (send_notification SMTP_exception t_check t_stamp listings s))))
              = outbox s)"
  using assms by (simp add: send_notification_def Let_def)

theorem send_notification_failure_witness:
  "send_notification SMTP_exception 4000 4001 [(''nice flat'', ''httpsaexamplex'', 1200)] (init_notifier 0)
     = (\<lparr>last_notification_time = 4001, outbox = [], notify_log = [Failed_to_send_notification]\<rparr>, Returned)
   \<and> outbox (fst (send_notification Delivered 4002 4003 [(''nice flat'', ''httpsaexamplex'', 1200)]
          (fst (send_notification SMTP_exception 4000 4001 [(''nice flat'', ''httpsaexamplex'', 1200)]
                 (init_notifier 0))))) = []"
  using send_notification_failure [of "[(''nice flat'', ''httpsaexamplex'', 1200)]" 4000 "init_notifier 0"
      4001 4002 Delivered 4003 "[(''nice flat'', ''httpsaexamplex'', 1200)]"]
  by (auto simp: init_notifier_def)

text \<open>
  C5, as stated, in a process started at time 0 (the stamp starts at the time of
  start-up): of two calls with non-empty lists at times 10 and 20 neither is
  dispatched, and of two calls at times 10 and 3700 only the second is.
\<close>

theorem send_notification_twice_counterexample:
  "outbox (fst (send_notification Delivered 20 20 [(''b'', ''l'', 1500)]
      (fst (send_notification Delivered 10 10 [(''a'', ''l'', 1200)] (init_notifier 0))))) = []
   \<and> outbox (fst (send_notification Delivered 3700 3700 [(''b'', ''l'', 1500)]
      (fst (send_notification Delivered 10 10 [(''a'', ''l'', 1200)] (init_notifier 0)))))
     = [[(''b'', ''l'', 1500)]]"
  by (simp add: send_notification_def init_notifier_def)

text \<open>
  C5, amended. Two calls with non-empty lists whose dispatch succeeds, the first one
  not throttled (at least 3600 seconds after the stored stamp): when the second call
  comes less than 3600 seconds after the stamp of the first, exactly the first
  message is dispatched; otherwise both are, in order.
\<close>

theorem send_notification_twice:
  assumes "first \<noteq> []" and "second \<noteq> []"
    and "\<not> a_check - last_notification_time s < 3600"
  shows "outbox (fst (send_notification Delivered b_check b_stamp second
                   (fst (send_notification Delivered a_check a_stamp first s))))
           = (if b_check - a_stamp < 3600 then outbox s @ [first] else outbox s @ [first, second])"
  using assms by (simp add: send_notification_def Let_def)

theorem send_notification_twice_witness:
  "outbox (fst (send_notification Delivered 4100 4100 [(''b'', ''l'', 1500)]
      (fst (send_notification Delivered 4000 4000 [(''a'', ''l'', 1200)] (init_notifier 0)))))
     = [[(''a'', ''l'', 1200)]]
   \<and> outbox (fst (send_notification Delivered 7600 7600 [(''b'', ''l'', 1500)]
      (fst (send_notification Delivered 4000 4000 [(''a'', ''l'', 1200)] (init_notifier 0)))))
     = [[(''a'', ''l'', 1200)], [(''b'', ''l'', 1500)]]"
  using send_notification_twice [of "[(''a'', ''l'', 1200)]" "[(''b'', ''l'', 1500)]" 4000 "init_notifier 0" 4100 4100 4000]
    send_notification_twice [of "[(''a'', ''l'', 1200)]" "[(''b'', ''l'', 1500)]" 4000 "init_notifier 0" 7600 7600 4000]
  by (simp add: init_notifier_def)

section \<open>Properties of the crawl\<close>

lemma make_request_frame:
  "make_request sp = (sp', nxt) \<Longrightarrow>
     urls sp' = urls sp \<and> current_url_index sp' = current_url_index sp
     \<and> db_manager sp' = db_manager sp \<and> selectors sp' = selectors sp
     \<and> nxt = (if current_url_index sp < length (urls sp) then Some (urls sp ! current_url_index sp) else None)"
  by (auto simp: make_request_def Let_def split: if_splits)

lemma parse_next:
  assumes "parse e sp r = (sp', Inr nxt)"
  shows "urls sp' = urls sp \<and> current_url_index sp' = Suc (current_url_index sp)
       \<and> nxt = (if Suc (current_url_index sp) < length (urls sp)
                then Some (urls sp ! Suc (current_url_index sp)) else None)"
proof -
  let ?done = "extract_listings e sp r (spider_log sp @ [Parsing_response (resp_url r) (resp_status r)])"
  let ?sp1 = "sp\<lparr>db_manager := fst (fst ?done), spider_log := snd (fst ?done),
                  current_url_index := current_url_index sp + 1\<rparr>"
  from assms have "make_request ?sp1 = (sp', nxt)"
    by (auto simp: parse_def Let_def split: option.splits prod.splits)
  from make_request_frame [OF this] show ?thesis by simp
qed

lemma zip_upt_step:
  assumes "i < length us"
  shows "(i, us ! i) # zip [Suc i..<Suc i + n] (take n (drop (Suc i) us))
           = zip [i..<i + Suc n] (take (Suc n) (drop i us))"
proof -
  have d: "drop i us = us ! i # drop (Suc i) us"
    using assms by (rule Cons_nth_drop_Suc [symmetric])
  have u: "[i..<Suc (i + n)] = i # [Suc i..<Suc (i + n)]"
    by (rule upt_conv_Cons) simp
  show ?thesis by (simp add: d u del: upt_Suc)
qed

lemma engine_callbacks:
  assumes "current_url_index sp + length rs \<le> length (urls sp)"
  shows "(\<exists>sp' tr' x. engine e (map Callback rs @ ds) sp
             (if current_url_index sp < length (urls sp)
              then Some (urls sp ! current_url_index sp) else None) tr
           = (sp', tr', Callback_raised x))
       \<or> (\<exists>sp'. urls sp' = urls sp
             \<and> current_url_index sp' = current_url_index sp + length rs
             \<and> engine e (map Callback rs @ ds) sp
                 (if current_url_index sp < length (urls sp)
                  then Some (urls sp ! current_url_index sp) else None) tr
               = engine e ds sp'
                   (if current_url_index sp' < length (urls sp')
                    then Some (urls sp' ! current_url_index sp') else None)
                   (tr @ zip [current_url_index sp..<current_url_index sp + length rs]
                           (take (length rs) (drop (current_url_index sp) (urls sp)))))"
  using assms
proof (induction rs arbitrary: sp tr)
  case Nil
  then show ?case by auto
next
  case (Cons r rs)
  let ?i = "current_url_index sp" and ?u = "urls sp ! current_url_index sp"
  from Cons.prems have lt: "?i < length (urls sp)" by simp
  obtain sp1 res where p: "parse e sp r = (sp1, res)" by (cases "parse e sp r")
  show ?case
  proof (cases res)
    case (Inl x)
    with p lt show ?thesis by simp
  next
    case (Inr nxt)
    note c = parse_next [OF p [unfolded Inr]]
    have step: "engine e (map Callback (r # rs) @ ds) sp (Some ?u) tr
                  = engine e (map Callback rs @ ds) sp1
                      (if current_url_index sp1 < length (urls sp1)
                       then Some (urls sp1 ! current_url_index sp1) else None)
                      (tr @ [(?i, ?u)])"
      using p Inr c by simp
    have "current_url_index sp1 + length rs \<le> length (urls sp1)"
      using Cons.prems c by simp
    from Cons.IH [OF this, of "tr @ [(?i, ?u)]"] show ?thesis
    proof
      assume "\<exists>sp' tr' x. engine e (map Callback rs @ ds) sp1
             (if current_url_index sp1 < length (urls sp1)
              then Some (urls sp1 ! current_url_index sp1) else None) (tr @ [(?i, ?u)])
           = (sp', tr', Callback_raised x)"
      then show ?thesis using step lt by auto
    next
      assume "\<exists>sp'. urls sp' = urls sp1
             \<and> current_url_index sp' = current_url_index sp1 + length rs
             \<and> engine e (map Callback rs @ ds) sp1
                 (if current_url_index sp1 < length (urls sp1)
                  then Some (urls sp1 ! current_url_index sp1) else None) (tr @ [(?i, ?u)])
               = engine e ds sp'
                   (if current_url_index sp' < length (urls sp')
                    then Some (urls sp' ! current_url_index sp') else None)
                   ((tr @ [(?i, ?u)]) @ zip [current_url_index sp1..<current_url_index sp1 + length rs]
                           (take (length rs) (drop (current_url_index sp1) (urls sp1))))"
      then obtain sp' where s: "urls sp' = urls sp1"
        "current_url_index sp' = current_url_index sp1 + length rs"
        "engine e (map Callback rs @ ds) sp1
                 (if current_url_index sp1 < length (urls sp1)
                  then Some (urls sp1 ! current_url_index sp1) else None) (tr @ [(?i, ?u)])
               = engine e ds sp'
                   (if current_url_index sp' < length (urls sp')
                    then Some (urls sp' ! current_url_index sp') else None)
                   ((tr @ [(?i, ?u)]) @ zip [current_url_index sp1..<current_url_index sp1 + length rs]
                           (take (length rs) (drop (current_url_index sp1) (urls sp1))))"
        by blast
      have z: "(tr @ [(?i, ?u)]) @ zip [current_url_index sp1..<current_url_index sp1 + length rs]
                           (take (length rs) (drop (current_url_index sp1) (urls sp1)))
                = tr @ zip [?i..<?i + length (r # rs)] (take (length (r # rs)) (drop ?i (urls sp)))"
        using zip_upt_step [OF lt, of "length rs"] c by simp
      have "urls sp' = urls sp \<and> current_url_index sp' = ?i + length (r # rs)"
        using s c by simp
      moreover have "engine e (map Callback (r # rs) @ ds) sp
                 (if ?i < length (urls sp) then Some ?u else None) tr
               = engine e ds sp'
                   (if current_url_index sp' < length (urls sp')
                    then Some (urls sp' ! current_url_index sp') else None)
                   (tr @ zip [?i..<?i + length (r # rs)] (take (length (r # rs)) (drop ?i (urls sp))))"
        using step s(3) lt unfolding z by simp
      ultimately show ?thesis by blast
    qed
  qed
qed

lemma crawl_callbacks:
  assumes "length rs \<le> length us"
  shows "(\<exists>x. ended (crawl e (map Callback rs @ ds) (init_spider us db sels)) = Callback_raised x)
       \<or> (\<exists>sp'. urls sp' = us \<and> current_url_index sp' = length rs
             \<and> crawl e (map Callback rs @ ds) (init_spider us db sels)
               = engine e ds sp'
                   (if length rs < length us then Some (us ! length rs) else None)
                   (zip [0..<length rs] (take (length rs) us)))"
proof -
  let ?init = "init_spider us db sels"
  obtain first req where start: "start_requests ?init = (first, req)"
    by (cases "start_requests ?init")
  from make_request_frame [OF start [unfolded start_requests_def]]
  have f: "urls first = us" "current_url_index first = 0"
    "req = (if current_url_index first < length (urls first)
            then Some (urls first ! current_url_index first) else None)"
    by (simp_all add: init_spider_def)
  have c: "crawl e (map Callback rs @ ds) ?init
             = engine e (map Callback rs @ ds) first
                 (if current_url_index first < length (urls first)
                  then Some (urls first ! current_url_index first) else None) []"
    using start f(3) by (simp add: crawl_def)
  have "current_url_index first + length rs \<le> length (urls first)"
    using assms f by simp
  from engine_callbacks [OF this, of e ds "[]"] show ?thesis
    unfolding c [symmetric] using f(1,2) by (auto simp: ended_def)
qed



lemma ex_title_text: "element_text (Some ''<h2>Nice Flat</h2>'') f = ''Nice Flat''"
  unfolding element_text_def by code_simp
lemma ex_price_text: "element_text (Some ''<span>$1,200</span>'') f = ''$1,200''"
  unfolding element_text_def by code_simp

lemma one_listing_page:
  assumes "min_price e = 1000" and "max_price e = 2000"
    and "price_amount e ''$1,200'' = Some 1200"
    and "urljoin e ''https://a.example/list'' (Some ''/x'') = Inr ''https://a.example/x''"
    and "\<not> sql_error e (''Nice Flat'', ''https://a.example/x'', 1200)"
    and "resp_url r = ''https://a.example/list''"
    and "sels ''https://a.example/list'' = Some sel"
    and "getitem sel ''listing_item'' = Inr item_sel"
    and "getitem sel ''title'' = Inr title_sel"
    and "getitem sel ''price'' = Inr price_sel"
    and "resp_css r item_sel = Inr [item]"
    and "item title_sel = Inr title_element"
    and "element_text title_element ''No title found'' = ''Nice Flat''"
    and "item price_sel = Inr price_element"
    and "element_text price_element ''No price found'' = ''$1,200''"
    and "item ''a::attr(href)'' = Inr (Some ''/x'')"
  shows "db_manager (fst (crawl e [Callback r] (init_spider [''https://a.example/list''] db sels)))
           = fst (insert_listing False db ''Nice Flat'' ''https://a.example/x'' (Some 1200))
       \<and> ended (crawl e [Callback r] (init_spider [''https://a.example/list''] db sels)) = Closed"
proof -
  have sel: "sel \<noteq> []" using assms(8) by (auto simp: getitem_def)
  have ins: "insert_listing False db ''Nice Flat'' ''https://a.example/x'' (Some 1200)
               = (fst (insert_listing False db ''Nice Flat'' ''https://a.example/x'' (Some 1200)), Returned)"
    by (simp add: insert_listing_def Let_def sqlite_integer_1200)
  have one: "process_listing e sel ''https://a.example/list'' (db, lg, 0) item
               = ((fst (insert_listing False db ''Nice Flat'' ''https://a.example/x'' (Some 1200)),
                   lg @ [Found_title_price ''Nice Flat'' ''$1,200''], 1), None)" for lg
    using assms(1-5,9,10,12-16)
    by (simp add: process_listing_def Let_def parse_price_def int_of_decimal_def)
       (subst ins, simp)
  show ?thesis
    using assms(6,7,8,11) sel
    by (simp add: crawl_def start_requests_def make_request_def init_spider_def Let_def
        parse_def extract_listings_def one ended_def)
qed

lemma ex_one_listing:
  "db_manager (fst (crawl ex_env [Callback ex_page] (init_spider [''https://a.example/list''] db ex_selectors)))
     = fst (insert_listing False db ''Nice Flat'' ''https://a.example/x'' (Some 1200))"
proof -
  have "db_manager (fst (crawl ex_env [Callback ex_page] (init_spider [''https://a.example/list''] db ex_selectors)))
           = fst (insert_listing False db ''Nice Flat'' ''https://a.example/x'' (Some 1200))
       \<and> ended (crawl ex_env [Callback ex_page] (init_spider [''https://a.example/list''] db ex_selectors)) = Closed"
    by (rule one_listing_page [where r = ex_page and sel = ex_selector_set and item = "ex_item ''/x''"
          and item_sel = "''div.listing''" and title_sel = "''h2''" and price_sel = "''span''"
          and title_element = "Some ''<h2>Nice Flat</h2>''"
          and price_element = "Some ''<span>$1,200</span>''"])
       (simp_all add: ex_env_def ex_page_def ex_selectors_def ex_selector_set_def ex_item_def
          getitem_def ex_title_text ex_price_text)
  then show ?thesis by simp
qed

text \<open>
  C1, as stated: after the crawl of the example page into an empty database the table
  does not hold the record with the link \<^verbatim>\<open>https://a.example/x\<close>; \<open>insert_listing\<close>
  sanitizes the link as it does the title, which removes the colon, the slashes and
  the dots.
\<close>

theorem end_to_end_counterexample:
  "fetch_all_listings (db_manager (fst (crawl ex_env [Callback ex_page]
       (init_spider [''https://a.example/list''] (open_db []) ex_selectors))))
     \<noteq> [(''nice flat'', ''https://a.example/x'', 1200)]"
  by (simp add: ex_one_listing insert_listing_def Let_def fetch_all_listings_def open_db_def
      has_key_def sanitize_title sanitize_link sqlite_integer_1200)

text \<open>
  C1, amended. For a page at \<^verbatim>\<open>https://a.example/list\<close> that yields one item with the
  title text \<^verbatim>\<open>Nice Flat\<close>, the price text \<^verbatim>\<open>$1,200\<close> and the link \<^verbatim>\<open>/x\<close>, under the
  price band 1000 to 2000, with the price library reading the amount 1200 and
  \<^verbatim>\<open>urljoin\<close> giving \<^verbatim>\<open>https://a.example/x\<close>: the crawl into an empty database stores
  exactly the record (\<^verbatim>\<open>nice flat\<close>, \<^verbatim>\<open>httpsaexamplex\<close>, 1200) and reports it as new; the
  same crawl run again on the stored table reports no new listing and leaves the
  table as it is.
\<close>

theorem end_to_end:
  assumes "min_price e = 1000" and "max_price e = 2000"
    and "price_amount e ''$1,200'' = Some 1200"
    and "urljoin e ''https://a.example/list'' (Some ''/x'') = Inr ''https://a.example/x''"
    and "\<not> sql_error e (''Nice Flat'', ''https://a.example/x'', 1200)"
    and "resp_url r = ''https://a.example/list''"
    and "sels ''https://a.example/list'' = Some sel"
    and "getitem sel ''listing_item'' = Inr item_sel"
    and "getitem sel ''title'' = Inr title_sel"
    and "getitem sel ''price'' = Inr price_sel"
    and "resp_css r item_sel = Inr [item]"
    and "item title_sel = Inr title_element"
    and "element_text title_element ''No title found'' = ''Nice Flat''"
    and "item price_sel = Inr price_element"
    and "element_text price_element ''No price found'' = ''$1,200''"
    and "item ''a::attr(href)'' = Inr (Some ''/x'')"
  shows "(let first = db_manager (fst (crawl e [Callback r]
                 (init_spider [''https://a.example/list''] (open_db []) sels)));
              again = db_manager (fst (crawl e [Callback r]
                 (init_spider [''https://a.example/list''] (open_db (fetch_all_listings first)) sels)))
          in fetch_all_listings first = [(''nice flat'', ''httpsaexamplex'', 1200)]
           \<and> get_new_listings first = [(''nice flat'', ''httpsaexamplex'', 1200)]
           \<and> get_new_listings again = []
           \<and> fetch_all_listings again = [(''nice flat'', ''httpsaexamplex'', 1200)])"
proof -
  have "db_manager (fst (crawl e [Callback r] (init_spider [''https://a.example/list''] db sels)))
                = fst (insert_listing False db ''Nice Flat'' ''https://a.example/x'' (Some 1200))
       \<and> ended (crawl e [Callback r] (init_spider [''https://a.example/list''] db sels)) = Closed" for db
    by (rule one_listing_page) (rule assms)+
  then have page: "db_manager (fst (crawl e [Callback r] (init_spider [''https://a.example/list''] db sels)))
                = fst (insert_listing False db ''Nice Flat'' ''https://a.example/x'' (Some 1200))" for db
    by simp
  have first:
    "fetch_all_listings (fst (insert_listing False (open_db []) ''Nice Flat'' ''https://a.example/x'' (Some 1200)))
       = [(''nice flat'', ''httpsaexamplex'', 1200)]"
    "get_new_listings (fst (insert_listing False (open_db []) ''Nice Flat'' ''https://a.example/x'' (Some 1200)))
       = [(''nice flat'', ''httpsaexamplex'', 1200)]"
    by (simp_all add: insert_listing_def Let_def open_db_def has_key_def sanitize_title sanitize_link
        fetch_all_listings_def get_new_listings_def sqlite_integer_1200)
  have again: "insert_listing False (open_db [(''nice flat'', ''httpsaexamplex'', 1200)])
                   ''Nice Flat'' ''https://a.example/x'' (Some 1200)
                 = (open_db [(''nice flat'', ''httpsaexamplex'', 1200)], Returned)"
    by (rule insert_listing_present)
       (simp_all add: open_db_def has_key_def sanitize_title sanitize_link sqlite_integer_1200)
  have stored: "fetch_all_listings (open_db xs) = xs" "get_new_listings (open_db xs) = []" for xs
    by (simp_all add: open_db_def fetch_all_listings_def get_new_listings_def)
  show ?thesis
    unfolding Let_def page by (simp add: first again stored)
qed

theorem end_to_end_witness:
  "fetch_all_listings (db_manager (fst (crawl ex_env [Callback ex_page]
       (init_spider [''https://a.example/list''] (open_db []) ex_selectors))))
     = [(''nice flat'', ''httpsaexamplex'', 1200)]
   \<and> get_new_listings (db_manager (fst (crawl ex_env [Callback ex_page]
       (init_spider [''https://a.example/list'']
          (open_db [(''nice flat'', ''httpsaexamplex'', 1200)]) ex_selectors)))) = []"
proof -
  note run = end_to_end [where e = ex_env and r = ex_page and sel = ex_selector_set
      and item = "ex_item ''/x''" and sels = ex_selectors
      and item_sel = "''div.listing''" and title_sel = "''h2''" and price_sel = "''span''"
      and title_element = "Some ''<h2>Nice Flat</h2>''"
      and price_element = "Some ''<span>$1,200</span>''"]
  have "(let first = db_manager (fst (crawl ex_env [Callback ex_page]
                 (init_spider [''https://a.example/list''] (open_db []) ex_selectors)));
              again = db_manager (fst (crawl ex_env [Callback ex_page]
                 (init_spider [''https://a.example/list''] (open_db (fetch_all_listings first))
                    ex_selectors)))
          in fetch_all_listings first = [(''nice flat'', ''httpsaexamplex'', 1200)]
           \<and> get_new_listings first = [(''nice flat'', ''httpsaexamplex'', 1200)]
           \<and> get_new_listings again = []
           \<and> fetch_all_listings again = [(''nice flat'', ''httpsaexamplex'', 1200)])"
    by (rule run)
       (simp_all add: ex_env_def ex_page_def ex_selectors_def ex_selector_set_def ex_item_def
          getitem_def ex_title_text ex_price_text)
  then show ?thesis
    unfolding Let_def by (elim conjE) simp
qed




text \<open>
  C7, as stated: both pages of two sites are downloaded and handed to the callback; on
  the first page \<^verbatim>\<open>urljoin\<close> raises \<^verbatim>\<open>ValueError\<close> for the link \<^verbatim>\<open>http://[\<close>, which
  \<open>parse\<close> does not catch. The cursor stays at 0 and the second site is never visited.
\<close>

theorem crawl_visits_each_once_counterexample:
  "requested (crawl ex_env [Callback ex_broken_page, Callback ex_empty_page]
      (init_spider [''https://a.example/list'', ''https://b.example/list''] (open_db []) ex_selectors))
     = [(0, ''https://a.example/list'')]
   \<and> ended (crawl ex_env [Callback ex_broken_page, Callback ex_empty_page]
      (init_spider [''https://a.example/list'', ''https://b.example/list''] (open_db []) ex_selectors))
     = Callback_raised ValueError
   \<and> current_url_index (fst (crawl ex_env [Callback ex_broken_page, Callback ex_empty_page]
      (init_spider [''https://a.example/list'', ''https://b.example/list''] (open_db []) ex_selectors)))
     = 0"
  by code_simp

text \<open>
  C7, amended. In a run where the page of every requested site is handed to the
  callback and the callback raises on none of them, the crawl of \<open>N\<close> sites requests
  the site at position \<open>i\<close> with the cursor at \<open>i\<close>, for \<open>i\<close> from \<open>0\<close> to \<open>N - 1\<close> in
  this order and nothing else: each site once, in the order of the list. It ends with
  the cursor at \<open>N\<close>, where \<open>make_request\<close> yields no request.
\<close>

theorem crawl_visits_each_once:
  assumes "length rs = length us"
    and "\<forall>x. ended (crawl e (map Callback rs) (init_spider us db sels)) \<noteq> Callback_raised x"
  shows "requested (crawl e (map Callback rs) (init_spider us db sels)) = zip [0..<length us] us
       \<and> current_url_index (fst (crawl e (map Callback rs) (init_spider us db sels))) = length us
       \<and> snd (make_request (fst (crawl e (map Callback rs) (init_spider us db sels)))) = None
       \<and> ended (crawl e (map Callback rs) (init_spider us db sels)) = Closed"
proof -
  from assms(1) have "length rs \<le> length us" by simp
  from crawl_callbacks [OF this, of e "[]" db sels] assms(2)
  obtain sp' where s: "urls sp' = us" "current_url_index sp' = length rs"
    "crawl e (map Callback rs) (init_spider us db sels)
       = engine e [] sp'
           (if length rs < length us then Some (us ! length rs) else None)
           (zip [0..<length rs] (take (length rs) us))"
    by auto
  show ?thesis
    using assms(1) by (simp add: s requested_def ended_def make_request_def)
qed

theorem crawl_visits_each_once_witness:
  "requested (crawl ex_env [Callback ex_page, Callback ex_empty_page]
      (init_spider [''https://a.example/list'', ''https://b.example/list''] (open_db []) ex_selectors))
     = [(0, ''https://a.example/list''), (1, ''https://b.example/list'')]
   \<and> current_url_index (fst (crawl ex_env [Callback ex_page, Callback ex_empty_page]
      (init_spider [''https://a.example/list'', ''https://b.example/list''] (open_db []) ex_selectors)))
     = 2"
proof -
  have e: "ended (crawl ex_env [Callback ex_page, Callback ex_empty_page]
      (init_spider [''https://a.example/list'', ''https://b.example/list''] (open_db []) ex_selectors))
     = Closed"
    by code_simp
  from crawl_visits_each_once [of "[ex_page, ex_empty_page]"
      "[''https://a.example/list'', ''https://b.example/list'']" ex_env "open_db []" ex_selectors]
  show ?thesis by (simp add: e upt_rec)
qed

section \<open>Properties of the URL validation\<close>




lemma ex_https_url_matches: "url_pattern_match ''https://a.example/my_scraper/private''" by code_simp
lemma ex_standard_paths: "disallowed_paths ''my_scraper'' ex_robots = []" by code_simp
lemma ex_bracket_url_matches: "url_pattern_match ''http://[::1/x''" by code_simp

text \<open>
  C8. The code at an ordinary robots file: the group of the agent \<^verbatim>\<open>my_scraper\<close>
  disallows \<^verbatim>\<open>/private\<close>. The line \<^verbatim>\<open>Disallow: /private\<close> does not contain the name of
  the agent, so \<open>validate_urls\<close> collects no disallowed path and admits both the
  disallowed url and the allowed one.
\<close>

theorem validate_urls_standard_robots:
  "validate_urls ex_urlparse (ex_http_get ex_robots) ''my_scraper''
     [''https://a.example/private/list'', ''https://a.example/public'']
     = Inr {''https://a.example/private/list'', ''https://a.example/public''}
   \<and> disallowed_paths ''my_scraper'' ex_robots = []"
proof -
  have "validate_urls ex_urlparse (ex_http_get ex_robots) ''my_scraper''
     [''https://a.example/private/list'', ''https://a.example/public'']
     = Inr (insert ''https://a.example/public'' (insert ''https://a.example/private/list'' {}))"
    unfolding validate_urls_def by code_simp
  then show ?thesis by (simp add: ex_standard_paths insert_commute)
qed




end
